theory Spec2Isabelle
  imports Complex_Main "HOL-Library.Char_ord" "HOL-Library.List_Lexorder" "HOL-Library.Log_Nat"
begin

section \<open>Data model of \<open>src/tools/pokemon_api.py\<close>\<close>

text \<open>
  One entry of the type-effectiveness chart: the inner dictionary with the two keys
  \<open>"weaknesses"\<close> and \<open>"resistances"\<close>, each holding a list of type names. The field
  names carry a prefix because the dataclass below has fields of the same names.
\<close>

record type_profile =
  tp_weaknesses :: "string list"
  tp_resistances :: "string list"

text \<open>
  The chart is a dictionary literal; an association list keeps it as written. Its keys
  are distinct (\<open>chart_keys\<close> below), so \<open>map_of\<close> is the lookup of the dictionary.
\<close>

type_synonym type_chart = "(string \<times> type_profile) list"

text \<open>The dataclass \<open>PokemonStats\<close>.\<close>

record pokemon_stats =
  name :: string
  types :: "string list"
  hp :: int
  attack :: int
  defense :: int
  special_attack :: int
  special_defense :: int
  speed :: int
  weaknesses :: "string list"
  resistances :: "string list"

text \<open>
  The part of the decoded JSON answer that \<open>_parse_pokemon_data\<close> reads:
  \<open>data['name']\<close>, the names \<open>t['type']['name']\<close> of \<open>data['types']\<close>, and the pairs
  \<open>(stat['stat']['name'], stat['base_stat'])\<close> of \<open>data['stats']\<close>.
\<close>

record api_data =
  data_name :: string
  data_types :: "string list"
  data_stats :: "(string \<times> int) list"

datatype py_error = ZeroDivisionError | ValueError | KeyError string

section \<open>Python containers\<close>

text \<open>
  A dictionary keeps its keys in insertion order; assigning to a key that is present
  changes the value and leaves the position of the key.
\<close>

fun dict_set :: "('k \<times> 'v) list \<Rightarrow> 'k \<Rightarrow> 'v \<Rightarrow> ('k \<times> 'v) list" where
  "dict_set [] k v = [(k, v)]"
| "dict_set ((k', v') # d) k v =
     (if k' = k then (k', v) # d else (k', v') # dict_set d k v)"

definition dict_get :: "('k \<times> 'v) list \<Rightarrow> 'k \<Rightarrow> 'v \<Rightarrow> 'v" where
  "dict_get d k dflt = (case map_of d k of None \<Rightarrow> dflt | Some v \<Rightarrow> v)"

text \<open>
  Python fixes no iteration order for a set of strings (it follows the hash values, which
  are salted anew in every process). \<open>list(s)\<close> is therefore modelled by a parameter
  \<open>set_iter\<close>, of which only this is known: it lists every element of a finite set once.
\<close>

definition enumerates :: "(string set \<Rightarrow> string list) \<Rightarrow> bool" where
  "enumerates set_iter \<longleftrightarrow>
     (\<forall>S. finite S \<longrightarrow> set (set_iter S) = S \<and> distinct (set_iter S))"

section \<open>The type-effectiveness chart\<close>

definition get_simplified_type_chart :: type_chart where
  "get_simplified_type_chart =
   [(''fire'', \<lparr>tp_weaknesses = [''water'', ''ground'', ''rock''],
       tp_resistances = [''fire'', ''grass'', ''ice'', ''bug'', ''steel'', ''fairy'']\<rparr>),
    (''water'', \<lparr>tp_weaknesses = [''electric'', ''grass''],
       tp_resistances = [''fire'', ''water'', ''ice'', ''steel'']\<rparr>),
    (''grass'', \<lparr>tp_weaknesses = [''fire'', ''ice'', ''poison'', ''flying'', ''bug''],
       tp_resistances = [''water'', ''electric'', ''grass'', ''ground'']\<rparr>),
    (''electric'', \<lparr>tp_weaknesses = [''ground''],
       tp_resistances = [''electric'', ''flying'', ''steel'']\<rparr>),
    (''psychic'', \<lparr>tp_weaknesses = [''bug'', ''ghost'', ''dark''],
       tp_resistances = [''fighting'', ''psychic'']\<rparr>),
    (''ice'', \<lparr>tp_weaknesses = [''fire'', ''fighting'', ''rock'', ''steel''],
       tp_resistances = [''ice'']\<rparr>),
    (''dragon'', \<lparr>tp_weaknesses = [''ice'', ''dragon'', ''fairy''],
       tp_resistances = [''fire'', ''water'', ''electric'', ''grass'']\<rparr>),
    (''dark'', \<lparr>tp_weaknesses = [''fighting'', ''bug'', ''fairy''],
       tp_resistances = [''ghost'', ''dark'']\<rparr>),
    (''fairy'', \<lparr>tp_weaknesses = [''poison'', ''steel''],
       tp_resistances = [''fighting'', ''bug'', ''dark'']\<rparr>),
    (''normal'', \<lparr>tp_weaknesses = [''fighting''],
       tp_resistances = []\<rparr>),
    (''fighting'', \<lparr>tp_weaknesses = [''flying'', ''psychic'', ''fairy''],
       tp_resistances = [''rock'', ''bug'', ''dark'']\<rparr>),
    (''poison'', \<lparr>tp_weaknesses = [''ground'', ''psychic''],
       tp_resistances = [''grass'', ''fighting'', ''poison'', ''bug'', ''fairy'']\<rparr>),
    (''ground'', \<lparr>tp_weaknesses = [''water'', ''grass'', ''ice''],
       tp_resistances = [''poison'', ''rock'']\<rparr>),
    (''flying'', \<lparr>tp_weaknesses = [''electric'', ''ice'', ''rock''],
       tp_resistances = [''grass'', ''fighting'', ''bug'']\<rparr>),
    (''bug'', \<lparr>tp_weaknesses = [''fire'', ''flying'', ''rock''],
       tp_resistances = [''grass'', ''fighting'', ''ground'']\<rparr>),
    (''rock'', \<lparr>tp_weaknesses = [''water'', ''grass'', ''fighting'', ''ground'', ''steel''],
       tp_resistances = [''normal'', ''fire'', ''poison'', ''flying'']\<rparr>),
    (''ghost'', \<lparr>tp_weaknesses = [''ghost'', ''dark''],
       tp_resistances = [''poison'', ''bug'']\<rparr>),
    (''steel'', \<lparr>tp_weaknesses = [''fire'', ''fighting'', ''ground''],
       tp_resistances = [''normal'', ''grass'', ''ice'', ''flying'', ''psychic'', ''bug'',
         ''rock'', ''dragon'', ''steel'', ''fairy'']\<rparr>)]"

section \<open>\<open>_parse_pokemon_data\<close>\<close>

text \<open>
  The loop over \<open>types\<close> (lines 158 to 161): a type that is a key of the chart adds its
  two lists to the two sets, any other type changes nothing.
\<close>

fun resolve_loop ::
  "type_chart \<Rightarrow> string list \<Rightarrow> string set \<times> string set \<Rightarrow> string set \<times> string set" where
  "resolve_loop chart [] (ws, rs) = (ws, rs)"
| "resolve_loop chart (ptype # ptypes) (ws, rs) =
     (case map_of chart ptype of
        None \<Rightarrow> resolve_loop chart ptypes (ws, rs)
      | Some prof \<Rightarrow>
          resolve_loop chart ptypes
            (ws \<union> set (tp_weaknesses prof), rs \<union> set (tp_resistances prof)))"

text \<open>Lines 155 to 164 at the level of sets: the loop, then \<open>weaknesses - resistances\<close>.\<close>

definition resolve :: "type_chart \<Rightarrow> string list \<Rightarrow> string set \<times> string set" where
  "resolve chart ptypes =
     (case resolve_loop chart ptypes ({}, {}) of (ws, rs) \<Rightarrow> (ws - rs, rs))"

text \<open>The loop over \<open>data['stats']\<close>, with \<open>stat_name.replace('-', '_')\<close>.\<close>

definition replace_dash :: "string \<Rightarrow> string" where
  "replace_dash s = map (\<lambda>c. if c = CHR ''-'' then CHR ''_'' else c) s"

fun parse_stats :: "(string \<times> int) list \<Rightarrow> (string \<times> int) list \<Rightarrow> (string \<times> int) list" where
  "parse_stats stats [] = stats"
| "parse_stats stats ((stat_name, base_stat) # rest) =
     parse_stats (dict_set stats (replace_dash stat_name) base_stat) rest"

definition parse_pokemon_data ::
  "(string set \<Rightarrow> string list) \<Rightarrow> type_chart \<Rightarrow> api_data \<Rightarrow> pokemon_stats" where
  "parse_pokemon_data set_iter chart data =
     (let stats = parse_stats [] (data_stats data);
          (ws, rs) = resolve chart (data_types data)
      in \<lparr>name = data_name data,
          types = data_types data,
          hp = dict_get stats ''hp'' 0,
          attack = dict_get stats ''attack'' 0,
          defense = dict_get stats ''defense'' 0,
          special_attack = dict_get stats ''special_attack'' 0,
          special_defense = dict_get stats ''special_defense'' 0,
          speed = dict_get stats ''speed'' 0,
          weaknesses = set_iter ws,
          resistances = set_iter rs\<rparr>)"

text \<open>
  \<open>get_pokemon_by_name\<close>: the HTTP request is the parameter \<open>http_get\<close>, which gives the
  decoded answer when the status is 200 and nothing otherwise (also when the request
  raises \<open>RequestException\<close>, which the method catches).
\<close>

definition get_pokemon_by_name ::
  "(string \<Rightarrow> api_data option) \<Rightarrow> (string set \<Rightarrow> string list) \<Rightarrow> type_chart \<Rightarrow>
   string \<Rightarrow> pokemon_stats option" where
  "get_pokemon_by_name http_get set_iter chart nm =
     (case http_get nm of
        Some data \<Rightarrow> Some (parse_pokemon_data set_iter chart data)
      | None \<Rightarrow> None)"

section \<open>Python floats\<close>

text \<open>
  A Python float is an IEEE double: a rational number with a mantissa of 53 bits. Every
  arithmetic operation returns the exact result rounded to the nearest double, a tie
  going to the even mantissa. The model keeps a double as the rational number it denotes
  and covers the normal range (no overflow, no subnormal numbers), in which every
  quotient and product below lies.
\<close>

definition round_half_even :: "rat \<Rightarrow> int" where
  "round_half_even q =
     (let f = \<lfloor>q\<rfloor>; r = q - of_int f
      in if r < 1 / 2 then f else if 1 / 2 < r then f + 1 else if even f then f else f + 1)"

text \<open>The exponent \<open>e\<close> of a positive rational \<open>x\<close>: \<open>2 powi e \<le> x < 2 powi (e + 1)\<close>.\<close>

definition binade :: "rat \<Rightarrow> int" where
  "binade x =
     (case quotient_of x of (a, b) \<Rightarrow>
        let d = bitlen a - bitlen b in if 2 powi d \<le> x then d else d - 1)"

definition double_round :: "rat \<Rightarrow> rat" where
  "double_round x =
     (if x = 0 then 0
      else let ulp = 2 powi (binade \<bar>x\<bar> - 52)
           in of_int (round_half_even (x / ulp)) * ulp)"

text \<open>
  \<open>a / b\<close> for two integers (true division, correctly rounded) and \<open>x * y\<close> for two
  floats; an integer operand of \<open>*\<close> is converted first, which is exact for \<open>100\<close>.
\<close>

definition int_truediv :: "nat \<Rightarrow> nat \<Rightarrow> rat" where
  "int_truediv a b = double_round (of_nat a / of_nat b)"

definition float_mul :: "rat \<Rightarrow> rat \<Rightarrow> rat" where
  "float_mul x y = double_round (x * y)"

text \<open>The expression \<open>(count / total_pokemon) * 100\<close> of line 200, for a positive total.\<close>

definition float_percentage :: "nat \<Rightarrow> nat \<Rightarrow> real" where
  "float_percentage cnt total_pokemon = of_rat (float_mul (int_truediv cnt total_pokemon) 100)"

section \<open>\<open>analyze_type_weaknesses\<close>\<close>

text \<open>The dictionary that \<open>analyze_type_weaknesses\<close> returns, with its four keys.\<close>

record analysis =
  an_type :: string
  analyzed_pokemon_count :: nat
  weakness_percentages :: "(string \<times> real) list"
  most_common_weakness :: "(string \<times> real) option"

text \<open>The inner loop (lines 194 and 195) over the weaknesses of one fetched record.\<close>

fun count_weaknesses :: "(string \<times> nat) list \<Rightarrow> string list \<Rightarrow> (string \<times> nat) list" where
  "count_weaknesses weakness_count [] = weakness_count"
| "count_weaknesses weakness_count (weakness # rest) =
     count_weaknesses
       (dict_set weakness_count weakness (dict_get weakness_count weakness 0 + 1)) rest"

text \<open>
  The outer loop (lines 190 to 195) over the sampled names. The state is the pair of
  \<open>weakness_count\<close> and \<open>total_pokemon\<close>; a name whose fetch gives nothing is skipped.
\<close>

fun sample_loop ::
  "(string \<Rightarrow> pokemon_stats option) \<Rightarrow> string list \<Rightarrow>
   (string \<times> nat) list \<times> nat \<Rightarrow> (string \<times> nat) list \<times> nat" where
  "sample_loop get_by_name [] (weakness_count, total_pokemon) =
     (weakness_count, total_pokemon)"
| "sample_loop get_by_name (nm # rest) (weakness_count, total_pokemon) =
     (case get_by_name nm of
        None \<Rightarrow> sample_loop get_by_name rest (weakness_count, total_pokemon)
      | Some pokemon \<Rightarrow>
          sample_loop get_by_name rest
            (count_weaknesses weakness_count (weaknesses pokemon), total_pokemon + 1))"

text \<open>
  The loop of lines 199 and 200. The division raises \<open>ZeroDivisionError\<close> when
  \<open>total_pokemon\<close> is zero; it is evaluated once for every item of \<open>weakness_count\<close>. The
  last argument \<open>wp\<close> is the dictionary \<open>weakness_percentages\<close> built so far. The value
  stored is the double that Python computes, read as a real number.
\<close>

fun percentages_loop ::
  "nat \<Rightarrow> (string \<times> nat) list \<Rightarrow> (string \<times> real) list \<Rightarrow> py_error + (string \<times> real) list" where
  "percentages_loop total_pokemon [] wp = Inr wp"
| "percentages_loop total_pokemon ((weakness, cnt) # items) wp =
     (if total_pokemon = 0 then Inl ZeroDivisionError
      else percentages_loop total_pokemon items
             (dict_set wp weakness (float_percentage cnt total_pokemon)))"

text \<open>
  The builtin \<open>max(iterable, key=...)\<close>: it raises \<open>ValueError\<close> on an empty iterable and
  otherwise keeps the first item, replacing it only by an item whose key is greater.
\<close>

fun max_loop :: "('a \<Rightarrow> real) \<Rightarrow> 'a \<Rightarrow> 'a list \<Rightarrow> 'a" where
  "max_loop key best [] = best"
| "max_loop key best (x # xs) = max_loop key (if key best < key x then x else best) xs"

definition py_max :: "('a \<Rightarrow> real) \<Rightarrow> 'a list \<Rightarrow> py_error + 'a" where
  "py_max key xs = (case xs of [] \<Rightarrow> Inl ValueError | x # rest \<Rightarrow> Inr (max_loop key x rest))"

text \<open>
  The two requests are parameters: \<open>get_by_type\<close> gives the names of a type (the empty
  list when the request fails) and \<open>get_by_name\<close> the record of a name, if any.
\<close>

definition analyze_type_weaknesses ::
  "(string \<Rightarrow> string list) \<Rightarrow> (string \<Rightarrow> pokemon_stats option) \<Rightarrow> string \<Rightarrow>
   py_error + analysis" where
  "analyze_type_weaknesses get_by_type get_by_name pokemon_type =
     (let pokemon_names = get_by_type pokemon_type;
          sample_size = min 10 (length pokemon_names);
          sample_pokemon = take sample_size pokemon_names;
          (weakness_count, total_pokemon) = sample_loop get_by_name sample_pokemon ([], 0)
      in case percentages_loop total_pokemon weakness_count [] of
           Inl e \<Rightarrow> Inl e
         | Inr wp \<Rightarrow>
             (case (if wp \<noteq> [] then map_sum id Some (py_max snd wp) else Inr None) of
                Inl e \<Rightarrow> Inl e
              | Inr mcw \<Rightarrow>
                  Inr \<lparr>an_type = pokemon_type,
                       analyzed_pokemon_count = total_pokemon,
                       weakness_percentages = wp,
                       most_common_weakness = mcw\<rparr>))"

text \<open>
  The sample of the specification: the records that the loop really fetched, in order.
\<close>

definition sample_records ::
  "(string \<Rightarrow> string list) \<Rightarrow> (string \<Rightarrow> pokemon_stats option) \<Rightarrow> string \<Rightarrow>
   pokemon_stats list" where
  "sample_records get_by_type get_by_name pokemon_type =
     List.map_filter get_by_name (take 10 (get_by_type pokemon_type))"

section \<open>\<open>generate_report\<close> of \<open>src/agents/research_agents.py\<close>\<close>

text \<open>
  \<open>sorted(items, key=..., reverse=True)\<close>: the list is reversed, sorted by a stable sort
  and reversed again, so that items with equal keys keep their order.
\<close>

definition py_sorted_reverse :: "('a \<Rightarrow> real) \<Rightarrow> 'a list \<Rightarrow> 'a list" where
  "py_sorted_reverse key xs = rev (sort_key key (rev xs))"

text \<open>
  The string operations of the report that are builtins of Python: \<open>str.title\<close>, the
  format \<open>:.1f\<close> of a float and the decimal form of an integer.
\<close>

record formatting =
  title :: "string \<Rightarrow> string"
  fmt_1f :: "real \<Rightarrow> string"
  fmt_int :: "nat \<Rightarrow> string"

definition e_acute :: string where
  "e_acute = [CHR 0xC3, CHR 0xA9]"

definition pokemon_word :: string where
  "pokemon_word = ''Pok'' @ e_acute @ ''mon''"

definition weakness_line :: "formatting \<Rightarrow> string \<times> real \<Rightarrow> string" where
  "weakness_line fmt item =
     (case item of (weakness, percentage) \<Rightarrow>
        ''  - '' @ title fmt weakness @ '': '' @ fmt_1f fmt percentage @ ''%'')"

text \<open>
  The list \<open>report_sections\<close>. The argument is \<open>research_data['weakness_analysis']\<close>, if
  that key is present; its value is a dictionary returned by \<open>analyze_type_weaknesses\<close>,
  which has all four keys.
\<close>

definition report_sections :: "formatting \<Rightarrow> analysis option \<Rightarrow> string list" where
  "report_sections fmt weakness_analysis =
     [''# '' @ pokemon_word @ '' Research Report'', ''## Executive Summary''] @
     (case weakness_analysis of
        None \<Rightarrow> []
      | Some weakness_data \<Rightarrow>
          [''Analysis of '' @ an_type weakness_data @ '' type '' @ pokemon_word @
           '' reveals significant strategic insights.'']) @
     [''## Methodology'',
      ''Data collected via Pok'' @ e_acute @ ''API with statistical analysis performed on type effectiveness and base stats.'',
      ''## Key Findings''] @
     (case weakness_analysis of
        None \<Rightarrow> []
      | Some weakness_data \<Rightarrow>
          [''- Analyzed '' @ fmt_int fmt (analyzed_pokemon_count weakness_data) @ '' '' @
           pokemon_word @ '' specimens''] @
          (case most_common_weakness weakness_data of
             None \<Rightarrow> []
           | Some (weakness_type, percentage) \<Rightarrow>
               [''- Most common weakness: '' @ title fmt weakness_type @ '' type ('' @
                fmt_1f fmt percentage @ ''% of analyzed '' @ pokemon_word @ '')'']) @
          [''- Weakness distribution:''] @
          map (weakness_line fmt)
            (py_sorted_reverse snd (weakness_percentages weakness_data))) @
     [''## Strategic Recommendations'',
      ''Based on the analysis, trainers should consider type coverage and defensive strategies when building teams.'']"

fun py_join :: "string \<Rightarrow> string list \<Rightarrow> string" where
  "py_join sep [] = []"
| "py_join sep [s] = s"
| "py_join sep (s # t # rest) = s @ sep @ py_join sep (t # rest)"

definition generate_report :: "formatting \<Rightarrow> analysis option \<Rightarrow> string" where
  "generate_report fmt weakness_analysis =
     py_join [CHR 0x0A, CHR 0x0A] (report_sections fmt weakness_analysis)"

section \<open>The resolver as the specification words it\<close>

text \<open>
  Section 4.1 of the specification: start from two empty sets; for each type, in order,
  that the table knows, add its weaknesses to the first set and its resistances to the
  second; at the end take the second set away from the first. The table is a partial map.
\<close>

definition resolve_step ::
  "(string \<rightharpoonup> type_profile) \<Rightarrow> string set \<times> string set \<Rightarrow> string \<Rightarrow> string set \<times> string set" where
  "resolve_step table acc ty =
     (case table ty of
        None \<Rightarrow> acc
      | Some prof \<Rightarrow> (fst acc \<union> set (tp_weaknesses prof), snd acc \<union> set (tp_resistances prof)))"

definition resolve_spec ::
  "(string \<rightharpoonup> type_profile) \<Rightarrow> string list \<Rightarrow> string set \<times> string set" where
  "resolve_spec table tys =
     (let acc = foldl (resolve_step table) ({}, {}) tys in (fst acc - snd acc, snd acc))"

section \<open>Example inputs\<close>

text \<open>The answer of the data source for one entity of type fire.\<close>

definition charmander_data :: api_data where
  "charmander_data =
     \<lparr>data_name = ''charmander'', data_types = [''fire''],
      data_stats = [(''hp'', 39), (''attack'', 52), (''defense'', 43),
                    (''special-attack'', 60), (''special-defense'', 50), (''speed'', 65)]\<rparr>"

text \<open>A record of which only the weaknesses matter.\<close>

definition record_with :: "string list \<Rightarrow> pokemon_stats" where
  "record_with ws =
     \<lparr>name = [], types = [], hp = 0, attack = 0, defense = 0, special_attack = 0,
      special_defense = 0, speed = 0, weaknesses = ws, resistances = []\<rparr>"

text \<open>A data source that knows the given names, with one record each.\<close>

definition source_of :: "(string \<times> pokemon_stats) list \<Rightarrow> string \<Rightarrow> pokemon_stats option" where
  "source_of entries = map_of entries"

text \<open>The scenario of section 8: two records, the first weak to water and ground, the
  second to water; the first record is given with both orders of its two weaknesses.\<close>

definition two_names :: "string \<Rightarrow> string list" where
  "two_names pokemon_type = [''first'', ''second'']"

definition water_ground_then_water :: "string \<Rightarrow> pokemon_stats option" where
  "water_ground_then_water =
     source_of [(''first'', record_with [''water'', ''ground'']),
                (''second'', record_with [''water''])]"

definition ground_water_then_water :: "string \<Rightarrow> pokemon_stats option" where
  "ground_water_then_water =
     source_of [(''first'', record_with [''ground'', ''water'']),
                (''second'', record_with [''water''])]"

text \<open>Three names of which the second has no answer.\<close>

definition three_names :: "string \<Rightarrow> string list" where
  "three_names pokemon_type = [''first'', ''missing'', ''third'']"

definition rock_water_then_rock :: "string \<Rightarrow> pokemon_stats option" where
  "rock_water_then_rock =
     source_of [(''first'', record_with [''rock'', ''water'']),
                (''third'', record_with [''rock''])]"

text \<open>One record without any weakness, as a type that the chart does not know gives.\<close>

definition one_name :: "string \<Rightarrow> string list" where
  "one_name pokemon_type = [''first'']"

definition no_weakness_source :: "string \<Rightarrow> pokemon_stats option" where
  "no_weakness_source = source_of [(''first'', record_with [])]"

definition shadow_data :: api_data where
  "shadow_data = \<lparr>data_name = ''first'', data_types = [''shadow''], data_stats = []\<rparr>"

text \<open>A formatting and an analysis for the report.\<close>

definition plain_formatting :: formatting where
  "plain_formatting = \<lparr>title = (\<lambda>s. s), fmt_1f = (\<lambda>x. ''?''), fmt_int = (\<lambda>n. ''?'')\<rparr>"

definition fire_analysis :: analysis where
  "fire_analysis =
     \<lparr>an_type = ''fire'', analyzed_pokemon_count = 2,
      weakness_percentages = [(''ground'', 50), (''water'', 100)],
      most_common_weakness = Some (''water'', 100)\<rparr>"

text \<open>Two iteration orders of sets of strings: ascending, which is \<open>sorted_list_of_set\<close>,
  and descending.\<close>

definition reversed_order :: "string set \<Rightarrow> string list" where
  "reversed_order S = rev (sorted_list_of_set S)"

text \<open>A data source with one name, answered by \<open>charmander_data\<close>.\<close>

definition fire_names :: "string \<Rightarrow> string list" where
  "fire_names pokemon_type = [''charmander'']"

definition charmander_http :: "string \<Rightarrow> api_data option" where
  "charmander_http = map_of [(''charmander'', charmander_data)]"

text \<open>Two records whose weakness lists hold the same elements, each once.\<close>

definition same_weakness_sets :: "pokemon_stats \<Rightarrow> pokemon_stats \<Rightarrow> bool" where
  "same_weakness_sets p q \<longleftrightarrow>
     set (weaknesses p) = set (weaknesses q) \<and>
     distinct (weaknesses p) \<and> distinct (weaknesses q)"

section \<open>Properties of the resolver\<close>

lemma chart_keys:
  "distinct (map fst get_simplified_type_chart)" "length get_simplified_type_chart = 18"
  by (simp_all add: get_simplified_type_chart_def)

lemma resolve_loop_union:
  "resolve_loop chart ptypes (ws, rs) =
     (ws \<union> (\<Union>p \<in> set ptypes. case map_of chart p of
                None \<Rightarrow> {} | Some prof \<Rightarrow> set (tp_weaknesses prof)),
      rs \<union> (\<Union>p \<in> set ptypes. case map_of chart p of
                None \<Rightarrow> {} | Some prof \<Rightarrow> set (tp_resistances prof)))"
  by (induction ptypes arbitrary: ws rs) (auto split: option.splits)

lemma resolve_loop_finite:
  "finite ws \<Longrightarrow> finite rs \<Longrightarrow>
   finite (fst (resolve_loop chart ptypes (ws, rs))) \<and>
   finite (snd (resolve_loop chart ptypes (ws, rs)))"
  by (induction ptypes arbitrary: ws rs) (auto split: option.splits)

lemma resolve_finite:
  "finite (fst (resolve chart ptypes))" "finite (snd (resolve chart ptypes))"
  using resolve_loop_finite [of "{}" "{}" chart ptypes]
  by (auto simp: resolve_def split: prod.splits)

lemma resolve_disjoint: "fst (resolve chart ptypes) \<inter> snd (resolve chart ptypes) = {}"
  by (auto simp: resolve_def split: prod.splits)

section \<open>Properties of the float operations\<close>

lemma binade_le:
  assumes "0 < x"
  shows "2 powi (binade x) \<le> x"
proof -
  obtain a b where q: "quotient_of x = (a, b)" by (cases "quotient_of x")
  have b: "0 < b" using q by (rule quotient_of_denom_pos)
  have x: "x = of_int a / of_int b" using q by (rule quotient_of_div)
  have a: "0 < a" using assms b unfolding x by (simp add: zero_less_divide_iff)
  define d where "d = bitlen a - bitlen b"
  show ?thesis
  proof (cases "2 powi d \<le> x")
    case True
    then show ?thesis by (simp add: binade_def q d_def)
  next
    case False
    have la: "(2::int) ^ nat (bitlen a - 1) \<le> a" using bitlen_bounds [OF a] by simp
    have lb: "b < (2::int) ^ nat (bitlen b)" using bitlen_bounds [OF b] by simp
    have pa: "1 \<le> bitlen a" using a bitlen_eq_zero_iff [of a] bitlen_nonneg [of a] by linarith
    have "(2::rat) powi (bitlen a - 1) = of_int (2 ^ nat (bitlen a - 1))"
      using pa by (simp add: power_int_def)
    then have n1: "(2::rat) powi (bitlen a - 1) \<le> of_int a"
      using la by (metis of_int_le_iff)
    have "(2::rat) powi (bitlen b) = of_int (2 ^ nat (bitlen b))"
      using bitlen_nonneg [of b] by (simp add: power_int_def)
    then have n2: "of_int b \<le> (2::rat) powi (bitlen b)"
      using lb by (metis less_imp_le of_int_le_iff)
    have "(2::rat) powi (d - 1) = 2 powi (bitlen a - 1) / 2 powi (bitlen b)"
      unfolding d_def using power_int_diff [of "2::rat" "bitlen a - 1" "bitlen b"]
      by (simp add: algebra_simps)
    also have "\<dots> \<le> of_int a / of_int b"
      using n1 n2 a b by (intro frac_le) simp_all
    finally have low: "(2::rat) powi (d - 1) \<le> x" unfolding x .
    have "binade x = d - 1" using False by (simp add: binade_def q d_def)
    then show ?thesis using low by simp
  qed
qed

lemma binade_upper:
  assumes "0 < x" and "x \<le> 2 powi k"
  shows "binade x \<le> k"
proof (rule ccontr)
  assume "\<not> binade x \<le> k"
  then have "k < binade x" by simp
  then have "(2::rat) powi k < 2 powi (binade x)"
    by (intro power_int_strict_increasing) simp_all
  then show False using binade_le [OF assms(1)] assms(2) by simp
qed

lemma round_half_even_le:
  assumes "q \<le> of_int N"
  shows "round_half_even q \<le> N"
proof -
  have f: "\<lfloor>q\<rfloor> \<le> N" using assms by (simp add: floor_le_iff)
  show ?thesis
  proof (cases "q = of_int \<lfloor>q\<rfloor>")
    case True
    then have "q - of_int \<lfloor>q\<rfloor> = 0" by simp
    then show ?thesis using f by (simp add: round_half_even_def Let_def)
  next
    case False
    then have "of_int \<lfloor>q\<rfloor> < q" using of_int_floor_le [of q] by (auto simp: less_le)
    then have "of_int \<lfloor>q\<rfloor> < (of_int N :: rat)" using assms by simp
    then have "\<lfloor>q\<rfloor> < N" by simp
    then show ?thesis by (simp add: round_half_even_def Let_def)
  qed
qed

lemma round_half_even_nonneg: "0 \<le> q \<Longrightarrow> 0 \<le> round_half_even q"
  by (simp add: round_half_even_def Let_def)

lemma double_round_nonneg:
  assumes "0 \<le> x"
  shows "0 \<le> double_round x"
proof (cases "x = 0")
  case True
  then show ?thesis by (simp add: double_round_def)
next
  case False
  have "0 \<le> x / 2 powi (binade \<bar>x\<bar> - 52)" using assms by simp
  then have "0 \<le> round_half_even (x / 2 powi (binade \<bar>x\<bar> - 52))"
    by (rule round_half_even_nonneg)
  then show ?thesis using False by (simp add: double_round_def Let_def)
qed

lemma double_round_le:
  assumes "0 < x" and "x \<le> y" and "y / 2 powi (binade x - 52) = of_int N"
  shows "double_round x \<le> y"
proof -
  define u :: rat where "u = 2 powi (binade x - 52)"
  have u: "0 < u" by (simp add: u_def)
  have "x / u \<le> y / u" using assms(2) u by (simp add: divide_right_mono)
  then have "round_half_even (x / u) \<le> N"
    using assms(3) unfolding u_def [symmetric] by (intro round_half_even_le) simp
  then have "of_int (round_half_even (x / u)) \<le> (of_int N :: rat)" by simp
  then have "of_int (round_half_even (x / u)) * u \<le> of_int N * u"
    using u by (simp add: mult_right_mono)
  also have "of_int N * u = y" using assms(3) u unfolding u_def [symmetric]
    by (simp add: field_simps)
  finally show ?thesis using assms(1) by (simp add: double_round_def Let_def u_def)
qed

lemma over_ulp:
  assumes "e \<le> 52"
  shows "(c::rat) / 2 powi (e - 52) = c * 2 ^ nat (52 - e)"
proof -
  have "(2::rat) powi (e - 52) = 1 / 2 powi (52 - e)"
    using power_int_minus_divide [of "2::rat" "52 - e"] by simp
  moreover have "(2::rat) powi (52 - e) = 2 ^ nat (52 - e)"
    using assms by (simp add: power_int_def)
  ultimately show ?thesis by simp
qed

lemma double_round_le_1:
  assumes "0 \<le> x" and "x \<le> 1"
  shows "double_round x \<le> 1"
proof (cases "x = 0")
  case True
  then show ?thesis by (simp add: double_round_def)
next
  case False
  then have pos: "0 < x" using assms(1) by simp
  have "binade x \<le> 0" using pos assms(2) by (intro binade_upper) simp_all
  then have "(1::rat) / 2 powi (binade x - 52) = of_int (2 ^ nat (52 - binade x))"
    by (simp add: over_ulp)
  then show ?thesis using pos assms(2) by (rule double_round_le [rotated 2])
qed

lemma double_round_le_100:
  assumes "0 \<le> x" and "x \<le> 100"
  shows "double_round x \<le> 100"
proof (cases "x = 0")
  case True
  then show ?thesis by (simp add: double_round_def)
next
  case False
  then have pos: "0 < x" using assms(1) by simp
  have "binade x \<le> 7" using pos assms(2) by (intro binade_upper) simp_all
  then have "(100::rat) / 2 powi (binade x - 52) = of_int (100 * 2 ^ nat (52 - binade x))"
    by (simp add: over_ulp)
  then show ?thesis using pos assms(2) by (rule double_round_le [rotated 2])
qed


lemma round_half_even_near: "\<bar>of_int (round_half_even q) - q\<bar> \<le> 1 / 2"
proof -
  have "of_int \<lfloor>q\<rfloor> \<le> q" and "q < of_int \<lfloor>q\<rfloor> + 1" by linarith+
  then show ?thesis by (auto simp: round_half_even_def Let_def)
qed

lemma double_round_near:
  assumes "0 < x"
  shows "\<bar>double_round x - x\<bar> \<le> x / 2 ^ 53"
proof -
  define u :: rat where "u = 2 powi (binade x - 52)"
  have u: "0 < u" by (simp add: u_def)
  have "(2::rat) powi (binade x - 52) = 2 powi (binade x) / 2 powi 52"
    by (rule power_int_diff) simp
  then have "u = 2 powi (binade x) / 2 ^ 52" by (simp add: u_def)
  then have ux: "u \<le> x / 2 ^ 52"
    using binade_le [OF assms] by (simp add: divide_right_mono)
  have "double_round x - x = (of_int (round_half_even (x / u)) - x / u) * u"
    using assms u by (simp add: double_round_def Let_def u_def [symmetric] field_simps)
  then have "\<bar>double_round x - x\<bar> = \<bar>of_int (round_half_even (x / u)) - x / u\<bar> * u"
    using u by (simp add: abs_mult)
  also have "\<dots> \<le> 1 / 2 * u"
    using round_half_even_near [of "x / u"] u by (intro mult_right_mono) simp_all
  also have "\<dots> \<le> 1 / 2 * (x / 2 ^ 52)" using ux by simp
  finally show ?thesis by simp
qed

lemma two_roundings_near:
  assumes "0 < x"
  shows "\<bar>double_round (double_round x * 100) - x * 100\<bar> \<le> x * 100 / 2 ^ 51"
proof -
  define q where "q = double_round x"
  have q0: "0 \<le> q" unfolding q_def using assms by (intro double_round_nonneg) simp
  have qx: "\<bar>q - x\<bar> \<le> x / 2 ^ 53" unfolding q_def by (rule double_round_near [OF assms])
  then have qle: "q \<le> x + x / 2 ^ 53" by linarith
  have second: "\<bar>double_round (q * 100) - q * 100\<bar> \<le> q * 100 / 2 ^ 53"
  proof (cases "q = 0")
    case True
    then show ?thesis by (simp add: double_round_def)
  next
    case False
    then have "0 < q * 100" using q0 by simp
    then show ?thesis by (rule double_round_near)
  qed
  have "\<bar>q * 100 - x * 100\<bar> = \<bar>(q - x) * 100\<bar>" by (simp add: algebra_simps)
  also have "\<dots> = \<bar>q - x\<bar> * \<bar>100\<bar>" by (rule abs_mult)
  finally have "\<bar>q - x\<bar> * 100 = \<bar>q * 100 - x * 100\<bar>" by simp
  then have "\<bar>double_round (q * 100) - x * 100\<bar> \<le>
        \<bar>double_round (q * 100) - q * 100\<bar> + \<bar>q - x\<bar> * 100"
    by linarith
  also have "\<dots> \<le> q * 100 / 2 ^ 53 + x / 2 ^ 53 * 100"
    using second qx by (intro add_mono mult_right_mono) simp_all
  also have "\<dots> \<le> (x + x / 2 ^ 53) * 100 / 2 ^ 53 + x / 2 ^ 53 * 100"
    using qle by (simp add: divide_right_mono)
  also have "\<dots> \<le> x * 100 / 2 ^ 51"
    using assms by (simp add: field_simps)
  finally show ?thesis unfolding q_def .
qed

lemma float_percentage_bounds:
  assumes "0 < n" and "c \<le> n"
  shows "0 \<le> float_percentage c n" and "float_percentage c n \<le> 100"
proof -
  have q: "0 \<le> (of_nat c / of_nat n :: rat)" "(of_nat c / of_nat n :: rat) \<le> 1"
    using assms by simp_all
  have d0: "0 \<le> int_truediv c n" unfolding int_truediv_def
    using q(1) by (rule double_round_nonneg)
  have d1: "int_truediv c n \<le> 1" unfolding int_truediv_def
    using q by (rule double_round_le_1)
  have m0: "0 \<le> float_mul (int_truediv c n) 100" unfolding float_mul_def
    using d0 by (intro double_round_nonneg) simp
  have m1: "float_mul (int_truediv c n) 100 \<le> 100" unfolding float_mul_def
    using d0 d1 by (intro double_round_le_100) simp_all
  show "0 \<le> float_percentage c n" unfolding float_percentage_def using m0 by simp
  have "(of_rat (float_mul (int_truediv c n) 100) :: real) \<le> of_rat 100"
    using m1 by (simp only: of_rat_less_eq)
  then show "float_percentage c n \<le> 100" unfolding float_percentage_def by simp
qed

lemma float_percentage_near:
  assumes "0 < c" and "0 < n"
  shows "\<bar>float_percentage c n - real c / real n * 100\<bar> \<le> real c / real n * 100 / 2 ^ 51"
proof -
  define x :: rat where "x = of_nat c / of_nat n"
  have x: "0 < x" using assms by (simp add: x_def)
  have r: "(of_rat x :: real) = real c / real n"
    by (simp add: x_def of_rat_divide)
  define y :: rat where "y = double_round (double_round x * 100)"
  have "\<bar>y - x * 100\<bar> \<le> x * 100 / 2 ^ 51"
    unfolding y_def using x by (rule two_roundings_near)
  then have "y - x * 100 \<le> x * 100 / 2 ^ 51" and "x * 100 - y \<le> x * 100 / 2 ^ 51"
    by linarith+
  then have "(of_rat (y - x * 100) :: real) \<le> of_rat (x * 100 / 2 ^ 51)"
    and "(of_rat (x * 100 - y) :: real) \<le> of_rat (x * 100 / 2 ^ 51)"
    by (simp_all only: of_rat_less_eq)
  then have "(of_rat y :: real) - of_rat x * 100 \<le> of_rat x * 100 / 2 ^ 51"
    and "of_rat x * 100 - (of_rat y :: real) \<le> of_rat x * 100 / 2 ^ 51"
    by (simp_all add: of_rat_diff of_rat_mult of_rat_divide of_rat_power)
  then have "\<bar>(of_rat y :: real) - of_rat x * 100\<bar> \<le> of_rat x * 100 / 2 ^ 51"
    by linarith
  then show ?thesis
    unfolding r float_percentage_def float_mul_def int_truediv_def x_def [symmetric]
      y_def [symmetric] .
qed

lemma float_percentage_values:
  "float_percentage (Suc 0) (Suc 0) = 100"
  "float_percentage (Suc (Suc 0)) (Suc (Suc 0)) = 100"
  "float_percentage (Suc 0) (Suc (Suc 0)) = 50"
  by code_simp+

lemma float_percentage_third:
  "float_percentage 1 3 = 2345624805922133 / 70368744177664" "float_percentage 1 3 \<noteq> 100 / 3"
  by code_simp+

section \<open>Properties of the dictionaries and of the loops\<close>

lemma map_of_dict_set: "map_of (dict_set d k v) = (map_of d)(k \<mapsto> v)"
  by (induction d) (auto simp: fun_eq_iff)

lemma dict_get_dict_set:
  "dict_get (dict_set d k v) k' dflt = (if k' = k then v else dict_get d k' dflt)"
  by (simp add: dict_get_def map_of_dict_set)

lemma keys_dict_set_old: "k \<in> fst ` set d \<Longrightarrow> map fst (dict_set d k v) = map fst d"
  by (induction d) force+

lemma keys_dict_set_new: "k \<notin> fst ` set d \<Longrightarrow> map fst (dict_set d k v) = map fst d @ [k]"
  by (induction d) auto

lemma keys_dict_set:
  "map fst (dict_set d k v) = (if k \<in> set (map fst d) then map fst d else map fst d @ [k])"
  by (simp add: keys_dict_set_old keys_dict_set_new)

lemma dict_set_fresh: "k \<notin> set (map fst d) \<Longrightarrow> dict_set d k v = d @ [(k, v)]"
  by (induction d) auto

lemma distinct_dict_set: "distinct (map fst d) \<Longrightarrow> distinct (map fst (dict_set d k v))"
  by (simp add: keys_dict_set)

lemma count_weaknesses_append:
  "count_weaknesses wc (xs @ ys) = count_weaknesses (count_weaknesses wc xs) ys"
  by (induction xs arbitrary: wc) auto

lemma count_weaknesses_get:
  "dict_get (count_weaknesses wc ws) w 0 = dict_get wc w 0 + count_list ws w"
  by (induction ws arbitrary: wc) (auto simp: dict_get_dict_set)

lemma count_weaknesses_distinct:
  "distinct (map fst wc) \<Longrightarrow> distinct (map fst (count_weaknesses wc ws))"
  by (induction ws arbitrary: wc) (auto simp: distinct_dict_set)

lemma first_seen_Cons:
  "rev (remdups (rev (w # ws))) = w # filter (\<lambda>x. x \<noteq> w) (rev (remdups (rev ws)))"
proof -
  have "remdups (xs @ [w]) = filter (\<lambda>x. x \<noteq> w) (remdups xs) @ [w]" for xs
    by (induction xs) auto
  then show ?thesis by (simp add: rev_filter)
qed

lemma count_weaknesses_keys:
  "map fst (count_weaknesses wc ws) =
     map fst wc @ filter (\<lambda>w. w \<notin> set (map fst wc)) (rev (remdups (rev ws)))"
proof (induction ws arbitrary: wc)
  case Nil
  then show ?case by simp
next
  case (Cons w ws)
  show ?case
  proof (cases "w \<in> set (map fst wc)")
    case True
    then show ?thesis
      unfolding first_seen_Cons count_weaknesses.simps Cons.IH keys_dict_set
      by (auto intro: filter_cong)
  next
    case False
    then show ?thesis
      unfolding first_seen_Cons count_weaknesses.simps Cons.IH keys_dict_set
      by (auto intro: filter_cong)
  qed
qed

lemma sample_loop_records:
  "sample_loop get_by_name names (wc, n) =
     (count_weaknesses wc (concat (map weaknesses (List.map_filter get_by_name names))),
      n + length (List.map_filter get_by_name names))"
  by (induction names arbitrary: wc n)
     (auto simp: List.map_filter_simps count_weaknesses_append split: option.splits)

lemma percentages_loop_ok:
  "0 < n \<Longrightarrow> distinct (map fst wp @ map fst items) \<Longrightarrow>
   percentages_loop n items wp =
     Inr (wp @ map (\<lambda>(w, c). (w, float_percentage c n)) items)"
proof (induction items arbitrary: wp)
  case Nil
  then show ?case by simp
next
  case (Cons it items)
  obtain w c where it: "it = (w, c)" by (cases it)
  have fresh: "w \<notin> set (map fst wp)" using Cons.prems(2) it by auto
  have d: "distinct (map fst (wp @ [(w, float_percentage c n)]) @ map fst items)"
    using Cons.prems(2) it by auto
  show ?case
    using Cons.prems(1) Cons.IH [OF Cons.prems(1) d]
    by (simp add: it dict_set_fresh [OF fresh])
qed

lemma max_loop_first:
  "\<exists>ys zs. best # xs = ys @ max_loop key best xs # zs \<and>
     (\<forall>y \<in> set ys. key y < key (max_loop key best xs)) \<and>
     (\<forall>z \<in> set zs. key z \<le> key (max_loop key best xs))"
proof (induction xs arbitrary: best)
  case Nil
  show ?case by (intro exI [of _ "[]"]) simp
next
  case (Cons x xs)
  show ?case
  proof (cases "key best < key x")
    case True
    from Cons.IH [of x] obtain ys zs where
      eq: "x # xs = ys @ max_loop key x xs # zs" and
      lt: "\<forall>y \<in> set ys. key y < key (max_loop key x xs)" and
      le: "\<forall>z \<in> set zs. key z \<le> key (max_loop key x xs)"
      by blast
    have "x \<in> set (ys @ max_loop key x xs # zs)" using eq by (metis list.set_intros(1))
    then have "key x \<le> key (max_loop key x xs)" using lt le by auto
    then have b: "key best < key (max_loop key x xs)" using True by simp
    have m: "max_loop key best (x # xs) = max_loop key x xs" using True by simp
    show ?thesis unfolding m
      apply (rule exI [of _ "best # ys"])
      apply (rule exI [of _ zs])
      using eq lt le b by simp
  next
    case False
    from Cons.IH [of best] obtain ys zs where
      eq: "best # xs = ys @ max_loop key best xs # zs" and
      lt: "\<forall>y \<in> set ys. key y < key (max_loop key best xs)" and
      le: "\<forall>z \<in> set zs. key z \<le> key (max_loop key best xs)"
      by blast
    have m: "max_loop key best (x # xs) = max_loop key best xs" using False by simp
    show ?thesis
    proof (cases ys)
      case Nil
      then have best: "max_loop key best xs = best" and zs: "zs = xs" using eq by auto
      show ?thesis unfolding m
        apply (rule exI [of _ "[]"])
        apply (rule exI [of _ "x # xs"])
        using best zs False le by auto
    next
      case (Cons y ys')
      then have y: "y = best" and xs: "xs = ys' @ max_loop key best xs # zs"
        using eq by auto
      have "key best < key (max_loop key best xs)" using lt Cons y by simp
      then have "key x < key (max_loop key best xs)" using False by simp
      then show ?thesis unfolding m
        apply (rule_tac x = "best # x # ys'" in exI)
        apply (rule_tac x = zs in exI)
        using xs Cons y lt le by auto
    qed
  qed
qed


lemma count_list_concat:
  "count_list (concat xss) w = sum_list (map (\<lambda>xs. count_list xs w) xss)"
  by (induction xss) auto

lemma count_list_distinct: "distinct xs \<Longrightarrow> count_list xs w = (if w \<in> set xs then 1 else 0)"
  by (induction xs) auto

lemma count_list_records:
  "\<forall>r \<in> set records. distinct (weaknesses r) \<Longrightarrow>
   count_list (concat (map weaknesses records)) w =
     length (filter (\<lambda>r. w \<in> set (weaknesses r)) records)"
  by (induction records) (auto simp: count_list_distinct)

lemma take_sample: "take (min 10 (length xs)) xs = take 10 xs"
  by (simp add: min_def)

lemma analyze_char:
  "analyze_type_weaknesses get_by_type get_by_name ty =
     Inr \<lparr>an_type = ty,
          analyzed_pokemon_count = length (sample_records get_by_type get_by_name ty),
          weakness_percentages =
            map (\<lambda>(w, c). (w, float_percentage c (length (sample_records get_by_type get_by_name ty))))
              (count_weaknesses []
                 (concat (map weaknesses (sample_records get_by_type get_by_name ty)))),
          most_common_weakness =
            (case map (\<lambda>(w, c). (w, float_percentage c (length (sample_records get_by_type get_by_name ty))))
              (count_weaknesses []
                 (concat (map weaknesses (sample_records get_by_type get_by_name ty)))) of
               [] \<Rightarrow> None | x # xs \<Rightarrow> Some (max_loop snd x xs))\<rparr>"
proof (cases "sample_records get_by_type get_by_name ty = []")
  case True
  then show ?thesis
    by (simp add: analyze_type_weaknesses_def take_sample sample_loop_records
        sample_records_def)
next
  case False
  then have pos: "0 < length (sample_records get_by_type get_by_name ty)" by simp
  have d: "distinct (map fst ([] :: (string \<times> real) list) @ map fst (count_weaknesses []
                 (concat (map weaknesses (sample_records get_by_type get_by_name ty)))))"
    using count_weaknesses_distinct [of "[]"] by simp
  show ?thesis
    using percentages_loop_ok [OF pos d]
    by (simp add: analyze_type_weaknesses_def take_sample sample_loop_records
        sample_records_def [symmetric] py_max_def split: list.splits)
qed

section \<open>Records built by \<open>_parse_pokemon_data\<close>\<close>

lemma parse_fields:
  "weaknesses (parse_pokemon_data set_iter chart data) = set_iter (fst (resolve chart (data_types data)))"
  "resistances (parse_pokemon_data set_iter chart data) = set_iter (snd (resolve chart (data_types data)))"
  by (simp_all add: parse_pokemon_data_def Let_def split: prod.splits)

lemma parse_sets:
  assumes "enumerates set_iter"
  shows "set (weaknesses (parse_pokemon_data set_iter chart data)) = fst (resolve chart (data_types data))"
    and "set (resistances (parse_pokemon_data set_iter chart data)) = snd (resolve chart (data_types data))"
    and "distinct (weaknesses (parse_pokemon_data set_iter chart data))"
    and "distinct (resistances (parse_pokemon_data set_iter chart data))"
  using assms resolve_finite [of chart "data_types data"]
  by (simp_all add: parse_fields enumerates_def)

text \<open>
  Claim C1. For every list of type names and every chart, the weakness set and the
  resistance set that the resolver computes share no element; and for every iteration
  order of Python's sets, the two lists stored in the record that
  \<open>_parse_pokemon_data\<close> builds share no element either.
\<close>

theorem weaknesses_resistances_disjoint:
  "fst (resolve chart ptypes) \<inter> snd (resolve chart ptypes) = {} \<and>
   (enumerates set_iter \<longrightarrow>
      set (weaknesses (parse_pokemon_data set_iter chart data)) \<inter>
      set (resistances (parse_pokemon_data set_iter chart data)) = {})"
  by (simp add: resolve_disjoint parse_sets)

theorem weaknesses_resistances_disjoint_witness:
  "enumerates sorted_list_of_set \<and>
   set (weaknesses (parse_pokemon_data sorted_list_of_set get_simplified_type_chart charmander_data)) \<inter>
   set (resistances (parse_pokemon_data sorted_list_of_set get_simplified_type_chart charmander_data)) = {}"
proof -
  have e: "enumerates sorted_list_of_set" by (simp add: enumerates_def)
  show ?thesis
    using e weaknesses_resistances_disjoint
      [of get_simplified_type_chart "[''fire'']" sorted_list_of_set charmander_data]
    by simp
qed

section \<open>The resolver against its specification\<close>

lemma foldl_resolve_step:
  "foldl (resolve_step (map_of chart)) (ws, rs) ptypes = resolve_loop chart ptypes (ws, rs)"
  by (induction ptypes arbitrary: ws rs) (auto simp: resolve_step_def split: option.splits)

lemma resolve_eq_spec: "resolve chart ptypes = resolve_spec (map_of chart) ptypes"
  by (simp add: resolve_def resolve_spec_def foldl_resolve_step Let_def split: prod.splits)

lemma resolve_closed:
  "resolve chart ptypes =
     ((\<Union>p \<in> set ptypes. case map_of chart p of
                None \<Rightarrow> {} | Some prof \<Rightarrow> set (tp_weaknesses prof)) -
      (\<Union>p \<in> set ptypes. case map_of chart p of
                None \<Rightarrow> {} | Some prof \<Rightarrow> set (tp_resistances prof)),
      (\<Union>p \<in> set ptypes. case map_of chart p of
                None \<Rightarrow> {} | Some prof \<Rightarrow> set (tp_resistances prof)))"
  by (simp add: resolve_def resolve_loop_union)

lemma resolve_loop_append:
  "resolve_loop chart (xs @ ys) acc = resolve_loop chart ys (resolve_loop chart xs acc)"
  by (induction xs arbitrary: acc) (auto split: option.splits prod.splits)

lemma resolve_skip:
  "map_of chart ty = None \<Longrightarrow> resolve chart (xs @ ty # ys) = resolve chart (xs @ ys)"
  by (cases "resolve_loop chart xs ({}, {})") (simp add: resolve_def resolve_loop_append)

text \<open>
  Claim C2. The resolver of the code equals the resolver that the specification words:
  two empty sets at the start, the union of the weaknesses and of the resistances of
  each type that the table knows, and the resistances removed from the weaknesses at the
  end. A type that the table does not know changes nothing and raises nothing, and the
  empty list of types gives two empty sets.
\<close>

theorem resolve_refines_spec:
  "resolve chart ptypes = resolve_spec (map_of chart) ptypes \<and>
   (map_of chart ty = None \<longrightarrow> resolve chart (xs @ ty # ys) = resolve chart (xs @ ys)) \<and>
   resolve chart [] = ({}, {})"
  by (simp add: resolve_eq_spec [symmetric] resolve_skip) (simp add: resolve_def)

theorem resolve_refines_spec_witness:
  "map_of get_simplified_type_chart ''shadow'' = None \<and>
   resolve get_simplified_type_chart ([''fire''] @ ''shadow'' # [''flying'']) =
     resolve get_simplified_type_chart ([''fire''] @ [''flying'']) \<and>
   resolve get_simplified_type_chart [''fire'', ''flying''] =
     resolve_spec (map_of get_simplified_type_chart) [''fire'', ''flying'']"
proof -
  have n: "map_of get_simplified_type_chart ''shadow'' = None"
    by (simp add: get_simplified_type_chart_def)
  show ?thesis
    using n resolve_refines_spec [of get_simplified_type_chart "[''fire'', ''flying'']"
        "''shadow''" "[''fire'']" "[''flying'']"]
    by simp
qed

text \<open>
  Claim C8. The type fire alone, resolved against the chart of the code, is weak to
  water, ground and rock, and resists fire, grass, ice, bug, steel and fairy.
\<close>

theorem resolve_fire:
  "resolve get_simplified_type_chart [''fire''] =
     ({''water'', ''ground'', ''rock''},
      {''fire'', ''grass'', ''ice'', ''bug'', ''steel'', ''fairy''})"
  by (simp add: resolve_def get_simplified_type_chart_def)

section \<open>The aggregate analysis\<close>

text \<open>
  Claim C5. When no record was fetched (no name, or no name with an answer), the
  analysis returns a result and not an error: the count is 0, the dictionary of
  percentages is empty and there is no most common weakness.
\<close>

theorem analyze_empty_sample:
  "sample_records get_by_type get_by_name ty = [] \<Longrightarrow>
   analyze_type_weaknesses get_by_type get_by_name ty =
     Inr \<lparr>an_type = ty, analyzed_pokemon_count = 0, weakness_percentages = [],
          most_common_weakness = None\<rparr>"
  by (simp add: analyze_char)

theorem analyze_empty_sample_witness:
  "sample_records (\<lambda>t. []) (source_of []) ''fire'' = [] \<and>
   sample_records (\<lambda>t. [''ditto'']) (source_of []) ''fire'' = [] \<and>
   analyze_type_weaknesses (\<lambda>t. []) (source_of []) ''fire'' =
     Inr \<lparr>an_type = ''fire'', analyzed_pokemon_count = 0, weakness_percentages = [],
          most_common_weakness = None\<rparr> \<and>
   analyze_type_weaknesses (\<lambda>t. [''ditto'']) (source_of []) ''fire'' =
     Inr \<lparr>an_type = ''fire'', analyzed_pokemon_count = 0, weakness_percentages = [],
          most_common_weakness = None\<rparr>"
proof -
  have a: "sample_records (\<lambda>t. []) (source_of []) ''fire'' = []"
    by (simp add: sample_records_def List.map_filter_simps)
  have b: "sample_records (\<lambda>t. [''ditto'']) (source_of []) ''fire'' = []"
    by (simp add: sample_records_def List.map_filter_simps source_of_def)
  show ?thesis
    using a b analyze_empty_sample [OF a] analyze_empty_sample [OF b] by simp
qed



section \<open>Percentages and the most common weakness\<close>

lemma count_weaknesses_keys_set: "fst ` set (count_weaknesses [] ws) = set ws"
proof -
  have "set (map fst (count_weaknesses [] ws)) = set ws"
    unfolding count_weaknesses_keys by simp
  then show ?thesis by simp
qed

lemma count_weaknesses_entry:
  "(w, c) \<in> set (count_weaknesses [] ws) \<longleftrightarrow> w \<in> set ws \<and> c = count_list ws w"
proof -
  have d: "distinct (map fst (count_weaknesses [] ws))"
    by (rule count_weaknesses_distinct) simp
  have g: "dict_get (count_weaknesses [] ws) w 0 = count_list ws w"
    using count_weaknesses_get [of "[]" ws w] by (simp add: dict_get_def)
  show ?thesis
  proof
    assume m: "(w, c) \<in> set (count_weaknesses [] ws)"
    then have "w \<in> fst ` set (count_weaknesses [] ws)" by force
    moreover have "map_of (count_weaknesses [] ws) w = Some c"
      using d m by simp
    ultimately show "w \<in> set ws \<and> c = count_list ws w"
      using g by (simp add: count_weaknesses_keys_set dict_get_def)
  next
    assume a: "w \<in> set ws \<and> c = count_list ws w"
    then have "w \<in> fst ` set (count_weaknesses [] ws)"
      by (simp add: count_weaknesses_keys_set)
    then obtain c' where m: "(w, c') \<in> set (count_weaknesses [] ws)" by auto
    then have "map_of (count_weaknesses [] ws) w = Some c'" using d by simp
    then have "c' = count_list ws w" using g by (simp add: dict_get_def)
    then show "(w, c) \<in> set (count_weaknesses [] ws)" using m a by simp
  qed
qed

lemma analyze_result:
  "\<exists>res. analyze_type_weaknesses get_by_type get_by_name ty = Inr res \<and>
     an_type res = ty \<and>
     analyzed_pokemon_count res = length (sample_records get_by_type get_by_name ty) \<and>
     weakness_percentages res =
       map (\<lambda>(w, c). (w, float_percentage c (length (sample_records get_by_type get_by_name ty))))
         (count_weaknesses [] (concat (map weaknesses (sample_records get_by_type get_by_name ty)))) \<and>
     most_common_weakness res =
       (case weakness_percentages res of [] \<Rightarrow> None | x # xs \<Rightarrow> Some (max_loop snd x xs))"
  by (simp add: analyze_char)

lemma percentages_keys:
  "map fst (map (\<lambda>(w, c). (w, f w c)) wc) = map fst wc"
  by (induction wc) auto

lemma count_le_length: "length (filter P xs) \<le> length xs"
  by simp

text \<open>
  Claim C3. When at least one record was fetched and the weaknesses of every record are a
  set (no weakness twice in its list), the analysis returns a result in which every
  percentage lies between 0 and 100 and equals the number of records that have the
  weakness, divided by the number of records, times 100, as Python computes this
  expression in doubles; its distance from the exact quotient times 100 is at most that
  value divided by \<open>2 ^ 51\<close>. The keys of the percentages are the weaknesses that some
  record has.
\<close>

theorem percentages_are_frequencies:
  assumes nonempty: "sample_records get_by_type get_by_name ty \<noteq> []"
    and sets: "\<forall>r \<in> set (sample_records get_by_type get_by_name ty). distinct (weaknesses r)"
  shows "\<exists>res. analyze_type_weaknesses get_by_type get_by_name ty = Inr res \<and>
     analyzed_pokemon_count res = length (sample_records get_by_type get_by_name ty) \<and>
     distinct (map fst (weakness_percentages res)) \<and>
     fst ` set (weakness_percentages res) =
       (\<Union>r \<in> set (sample_records get_by_type get_by_name ty). set (weaknesses r)) \<and>
     (\<forall>(w, p) \<in> set (weakness_percentages res).
        0 \<le> p \<and> p \<le> 100 \<and>
        p = of_rat (float_mul
              (int_truediv
                 (length (filter (\<lambda>r. w \<in> set (weaknesses r))
                    (sample_records get_by_type get_by_name ty)))
                 (length (sample_records get_by_type get_by_name ty))) 100) \<and>
        \<bar>p - real (length (filter (\<lambda>r. w \<in> set (weaknesses r))
                     (sample_records get_by_type get_by_name ty))) /
             real (length (sample_records get_by_type get_by_name ty)) * 100\<bar> \<le>
          real (length (filter (\<lambda>r. w \<in> set (weaknesses r))
                     (sample_records get_by_type get_by_name ty))) /
             real (length (sample_records get_by_type get_by_name ty)) * 100 / 2 ^ 51)"
proof -
  define records where "records = sample_records get_by_type get_by_name ty"
  define ws where "ws = concat (map weaknesses records)"
  define n where "n = length records"
  obtain res where res: "analyze_type_weaknesses get_by_type get_by_name ty = Inr res"
    and cnt: "analyzed_pokemon_count res = n"
    and wp: "weakness_percentages res =
       map (\<lambda>(w, c). (w, float_percentage c n)) (count_weaknesses [] ws)"
    using analyze_result [of get_by_type get_by_name ty]
    unfolding records_def ws_def n_def by blast
  have pos: "0 < n" using nonempty by (simp add: n_def records_def)
  have keys: "map fst (weakness_percentages res) = map fst (count_weaknesses [] ws)"
    unfolding wp by (rule percentages_keys)
  have d: "distinct (map fst (weakness_percentages res))"
    unfolding keys by (rule count_weaknesses_distinct) simp
  have "set (map fst (weakness_percentages res)) = set ws"
    unfolding keys using count_weaknesses_keys_set [of ws] by simp
  then have dom: "fst ` set (weakness_percentages res) = (\<Union>r \<in> set records. set (weaknesses r))"
    by (simp add: ws_def)
  have freq: "count_list ws w = length (filter (\<lambda>r. w \<in> set (weaknesses r)) records)" for w
    unfolding ws_def using sets by (intro count_list_records) (simp add: records_def)
  have each: "0 \<le> p \<and> p \<le> 100 \<and>
      p = of_rat (float_mul (int_truediv
            (length (filter (\<lambda>r. w \<in> set (weaknesses r)) records)) n) 100) \<and>
      \<bar>p - real (length (filter (\<lambda>r. w \<in> set (weaknesses r)) records)) / real n * 100\<bar> \<le>
        real (length (filter (\<lambda>r. w \<in> set (weaknesses r)) records)) / real n * 100 / 2 ^ 51"
    if "(w, p) \<in> set (weakness_percentages res)" for w p
  proof -
    from that obtain c where c: "(w, c) \<in> set (count_weaknesses [] ws)"
      and p: "p = float_percentage c n"
      unfolding wp by auto
    have ceq: "c = length (filter (\<lambda>r. w \<in> set (weaknesses r)) records)"
      using c by (simp add: count_weaknesses_entry freq)
    have le: "c \<le> n" unfolding ceq n_def by (rule count_le_length)
    have "w \<in> set ws" using c by (simp add: count_weaknesses_entry)
    then have "count_list ws w \<noteq> 0" by (simp add: count_list_0_iff)
    then have "0 < count_list ws w" by simp
    then have cpos: "0 < c" using c by (simp add: count_weaknesses_entry)
    show ?thesis
      using float_percentage_bounds [OF pos le] float_percentage_near [OF cpos pos]
      unfolding p ceq [symmetric] by (simp add: float_percentage_def)
  qed
  show ?thesis
    apply (rule exI [of _ res])
    using res cnt d dom each unfolding records_def [symmetric] n_def by auto
qed

lemma sample_three:
  "sample_records three_names rock_water_then_rock ''fire'' =
     [record_with [''rock'', ''water''], record_with [''rock'']]"
  by (simp add: sample_records_def three_names_def rock_water_then_rock_def source_of_def
      List.map_filter_simps)

theorem percentages_are_frequencies_witness:
  "sample_records three_names rock_water_then_rock ''fire'' \<noteq> [] \<and>
   list_all (\<lambda>r. distinct (weaknesses r))
     (sample_records three_names rock_water_then_rock ''fire'') \<and>
   (\<exists>res. analyze_type_weaknesses three_names rock_water_then_rock ''fire'' = Inr res \<and>
      analyzed_pokemon_count res =
        length (sample_records three_names rock_water_then_rock ''fire'') \<and>
      distinct (map fst (weakness_percentages res)) \<and>
      fst ` set (weakness_percentages res) =
        (\<Union>r \<in> set (sample_records three_names rock_water_then_rock ''fire'').
           set (weaknesses r)) \<and>
      (\<forall>(w, p) \<in> set (weakness_percentages res).
         0 \<le> p \<and> p \<le> 100 \<and>
         p = of_rat (float_mul
               (int_truediv
                  (length (filter (\<lambda>r. w \<in> set (weaknesses r))
                     (sample_records three_names rock_water_then_rock ''fire'')))
                  (length (sample_records three_names rock_water_then_rock ''fire''))) 100) \<and>
         \<bar>p - real (length (filter (\<lambda>r. w \<in> set (weaknesses r))
                      (sample_records three_names rock_water_then_rock ''fire''))) /
              real (length (sample_records three_names rock_water_then_rock ''fire'')) * 100\<bar> \<le>
           real (length (filter (\<lambda>r. w \<in> set (weaknesses r))
                      (sample_records three_names rock_water_then_rock ''fire''))) /
              real (length (sample_records three_names rock_water_then_rock ''fire'')) * 100 / 2 ^ 51))"
proof -
  have a: "sample_records three_names rock_water_then_rock ''fire'' \<noteq> []"
    by (simp add: sample_three)
  have b: "\<forall>r \<in> set (sample_records three_names rock_water_then_rock ''fire'').
      distinct (weaknesses r)"
    by (simp add: sample_three record_with_def)
  have c: "list_all (\<lambda>r. distinct (weaknesses r))
     (sample_records three_names rock_water_then_rock ''fire'')"
    using b by (simp add: list_all_iff)
  show ?thesis
    by (intro conjI a c percentages_are_frequencies [OF a b])
qed

lemma example_water_ground:
  "analyze_type_weaknesses two_names water_ground_then_water ''fire'' =
     Inr \<lparr>an_type = ''fire'', analyzed_pokemon_count = 2,
          weakness_percentages = [(''water'', 100), (''ground'', 50)],
          most_common_weakness = Some (''water'', 100)\<rparr>"
  by (simp add: analyze_type_weaknesses_def two_names_def water_ground_then_water_def
      source_of_def record_with_def dict_get_def py_max_def float_percentage_values)

lemma example_ground_water:
  "analyze_type_weaknesses two_names ground_water_then_water ''fire'' =
     Inr \<lparr>an_type = ''fire'', analyzed_pokemon_count = 2,
          weakness_percentages = [(''ground'', 50), (''water'', 100)],
          most_common_weakness = Some (''water'', 100)\<rparr>"
  by (simp add: analyze_type_weaknesses_def two_names_def ground_water_then_water_def
      source_of_def record_with_def dict_get_def py_max_def float_percentage_values)

lemma mode_general:
  assumes "\<exists>r \<in> set (sample_records get_by_type get_by_name ty). weaknesses r \<noteq> []"
  shows "\<exists>res m ys zs.
      analyze_type_weaknesses get_by_type get_by_name ty = Inr res \<and>
      map fst (weakness_percentages res) =
        rev (remdups (rev (concat (map weaknesses
          (sample_records get_by_type get_by_name ty))))) \<and>
      most_common_weakness res = Some m \<and>
      weakness_percentages res = ys @ m # zs \<and>
      (\<forall>y \<in> set ys. snd y < snd m) \<and>
      (\<forall>z \<in> set zs. snd z \<le> snd m)"
proof -
  define ws where "ws = concat (map weaknesses (sample_records get_by_type get_by_name ty))"
  obtain res where res: "analyze_type_weaknesses get_by_type get_by_name ty = Inr res"
    and wp: "weakness_percentages res =
       map (\<lambda>(w, c). (w, float_percentage c (length (sample_records get_by_type get_by_name ty))))
         (count_weaknesses [] ws)"
    and mcw: "most_common_weakness res =
       (case weakness_percentages res of [] \<Rightarrow> None | x # xs \<Rightarrow> Some (max_loop snd x xs))"
    using analyze_result [of get_by_type get_by_name ty] unfolding ws_def by blast
  have keys: "map fst (weakness_percentages res) = rev (remdups (rev ws))"
    unfolding wp percentages_keys count_weaknesses_keys by simp
  have "ws \<noteq> []" using assms by (auto simp: ws_def)
  then have "weakness_percentages res \<noteq> []" using keys by auto
  then obtain x xs where cons: "weakness_percentages res = x # xs"
    by (cases "weakness_percentages res") auto
  obtain ys zs where eq: "x # xs = ys @ max_loop snd x xs # zs"
    and lt: "\<forall>y \<in> set ys. snd y < snd (max_loop snd x xs)"
    and le: "\<forall>z \<in> set zs. snd z \<le> snd (max_loop snd x xs)"
    using max_loop_first [of x xs snd] by blast
  have m: "most_common_weakness res = Some (max_loop snd x xs)"
    using mcw cons by simp
  have dec: "weakness_percentages res = ys @ max_loop snd x xs # zs"
    using cons eq by simp
  show ?thesis
    using res keys m dec lt le unfolding ws_def by blast
qed

lemma mode_absent:
  assumes "\<forall>r \<in> set (sample_records get_by_type get_by_name ty). weaknesses r = []"
  shows "\<exists>res. analyze_type_weaknesses get_by_type get_by_name ty = Inr res \<and>
      weakness_percentages res = [] \<and> most_common_weakness res = None"
proof -
  have c: "concat (map weaknesses (sample_records get_by_type get_by_name ty)) = []"
    using assms by simp
  show ?thesis by (simp add: analyze_char c)
qed


lemma sample_two:
  "sample_records two_names water_ground_then_water ''fire'' =
     [record_with [''water'', ''ground''], record_with [''water'']]"
  by (simp add: sample_records_def two_names_def water_ground_then_water_def source_of_def
      List.map_filter_simps)

lemma sample_one:
  "sample_records one_name no_weakness_source ''shadow'' = [record_with []]"
  by (simp add: sample_records_def one_name_def no_weakness_source_def source_of_def
      List.map_filter_simps)

text \<open>
  Claim C4 as stated fails on a sample that is not empty but in which no record has a
  weakness (the resolver gives such a record for a type that the chart does not know):
  the percentages are empty and \<open>most_common_weakness\<close> is \<open>None\<close>, not a pair.
\<close>

theorem mode_absent_counterexample:
  "weaknesses (parse_pokemon_data sorted_list_of_set get_simplified_type_chart shadow_data) = [] \<and>
   sample_records one_name no_weakness_source ''shadow'' = [record_with []] \<and>
   analyze_type_weaknesses one_name no_weakness_source ''shadow'' =
     Inr \<lparr>an_type = ''shadow'', analyzed_pokemon_count = 1, weakness_percentages = [],
          most_common_weakness = None\<rparr>"
proof -
  have "weaknesses (parse_pokemon_data sorted_list_of_set get_simplified_type_chart shadow_data) = []"
    by (simp add: parse_fields shadow_data_def resolve_def get_simplified_type_chart_def)
  moreover have "analyze_type_weaknesses one_name no_weakness_source ''shadow'' =
     Inr \<lparr>an_type = ''shadow'', analyzed_pokemon_count = 1, weakness_percentages = [],
          most_common_weakness = None\<rparr>"
    by (simp add: analyze_type_weaknesses_def one_name_def no_weakness_source_def
        source_of_def record_with_def)
  ultimately show ?thesis by (simp add: sample_one)
qed

text \<open>
  Claim C4, amended. When some fetched record has a weakness, the analysis returns a most
  common weakness, which is an item of the percentages whose percentage no item exceeds
  and every earlier item is strictly below; the items stand in the order in which the
  weaknesses were first met over the records. When no fetched record has a weakness there
  is none. For the records with weaknesses water and ground, then water, the percentages
  are water 100 and ground 50 and the most common weakness is water with 100, whichever
  way the first record lists its two weaknesses.
\<close>

theorem mode_is_first_maximum:
  "((\<exists>r \<in> set (sample_records get_by_type get_by_name ty). weaknesses r \<noteq> []) \<longrightarrow>
      (\<exists>res m ys zs.
         analyze_type_weaknesses get_by_type get_by_name ty = Inr res \<and>
         map fst (weakness_percentages res) =
           rev (remdups (rev (concat (map weaknesses
             (sample_records get_by_type get_by_name ty))))) \<and>
         most_common_weakness res = Some m \<and>
         weakness_percentages res = ys @ m # zs \<and>
         (\<forall>y \<in> set ys. snd y < snd m) \<and>
         (\<forall>z \<in> set zs. snd z \<le> snd m))) \<and>
   ((\<forall>r \<in> set (sample_records get_by_type get_by_name ty). weaknesses r = []) \<longrightarrow>
      (\<exists>res. analyze_type_weaknesses get_by_type get_by_name ty = Inr res \<and>
         weakness_percentages res = [] \<and> most_common_weakness res = None)) \<and>
   analyze_type_weaknesses two_names water_ground_then_water ''fire'' =
     Inr \<lparr>an_type = ''fire'', analyzed_pokemon_count = 2,
          weakness_percentages = [(''water'', 100), (''ground'', 50)],
          most_common_weakness = Some (''water'', 100)\<rparr> \<and>
   analyze_type_weaknesses two_names ground_water_then_water ''fire'' =
     Inr \<lparr>an_type = ''fire'', analyzed_pokemon_count = 2,
          weakness_percentages = [(''ground'', 50), (''water'', 100)],
          most_common_weakness = Some (''water'', 100)\<rparr>"
  using mode_general [of get_by_type get_by_name ty] mode_absent [of get_by_type get_by_name ty]
    example_water_ground example_ground_water
  by blast

theorem mode_is_first_maximum_witness:
  "(\<exists>r \<in> set (sample_records two_names water_ground_then_water ''fire''). weaknesses r \<noteq> []) \<and>
   (\<exists>res m ys zs.
      analyze_type_weaknesses two_names water_ground_then_water ''fire'' = Inr res \<and>
      map fst (weakness_percentages res) =
        rev (remdups (rev (concat (map weaknesses
          (sample_records two_names water_ground_then_water ''fire''))))) \<and>
      most_common_weakness res = Some m \<and>
      weakness_percentages res = ys @ m # zs \<and>
      (\<forall>y \<in> set ys. snd y < snd m) \<and>
      (\<forall>z \<in> set zs. snd z \<le> snd m)) \<and>
   list_all (\<lambda>r. weaknesses r = []) (sample_records one_name no_weakness_source ''shadow'') \<and>
   (\<exists>res. analyze_type_weaknesses one_name no_weakness_source ''shadow'' = Inr res \<and>
      weakness_percentages res = [] \<and> most_common_weakness res = None)"
proof -
  have a: "\<exists>r \<in> set (sample_records two_names water_ground_then_water ''fire''). weaknesses r \<noteq> []"
    by (simp add: sample_two record_with_def)
  have b: "\<forall>r \<in> set (sample_records one_name no_weakness_source ''shadow''). weaknesses r = []"
    by (simp add: sample_one record_with_def)
  have c: "list_all (\<lambda>r. weaknesses r = []) (sample_records one_name no_weakness_source ''shadow'')"
    using b by (simp add: list_all_iff)
  show ?thesis
    using a b c mode_is_first_maximum [of two_names water_ground_then_water "''fire''"]
      mode_is_first_maximum [of one_name no_weakness_source "''shadow''"]
    by blast
qed

section \<open>The report\<close>

lemma py_sorted_reverse_descending: "sorted (rev (map key (py_sorted_reverse key xs)))"
  by (simp add: py_sorted_reverse_def rev_map)

lemma py_sorted_reverse_stable:
  "filter (\<lambda>y. key y = k) (py_sorted_reverse key xs) = filter (\<lambda>y. key y = k) xs"
  by (simp add: py_sorted_reverse_def rev_filter [symmetric] sort_key_stable)

lemma py_sorted_reverse_set: "set (py_sorted_reverse key xs) = set xs"
  by (simp add: py_sorted_reverse_def)

lemma py_sorted_reverse_length: "length (py_sorted_reverse key xs) = length xs"
  by (simp add: py_sorted_reverse_def)

lemma py_sorted_reverse_strict:
  assumes "distinct (map key xs)"
  shows "sorted_wrt (\<lambda>a b. key b < key a) (py_sorted_reverse key xs)"
proof -
  have "distinct (map key (sort_key key (rev xs)))"
    using assms by (simp add: distinct_map)
  then have "sorted_wrt (<) (map key (sort_key key (rev xs)))"
    by (simp add: strict_sorted_iff)
  then have "sorted_wrt (\<lambda>a b. key a < key b) (sort_key key (rev xs))"
    by (simp add: sorted_wrt_map)
  then show ?thesis
    by (simp add: py_sorted_reverse_def sorted_wrt_rev)
qed

text \<open>
  Claim C7. For every analysis, the lines of the weaknesses in the findings of the report
  are the items of the percentages, all of them, sorted by descending percentage: no line has a
  greater percentage than a line before it, items with equal percentages keep the order
  they have in the dictionary, and when all percentages differ the order is strictly
  descending.
\<close>

theorem report_weaknesses_descending:
  "(\<exists>pre. report_sections fmt (Some weakness_data) =
      pre @ [''- Weakness distribution:''] @
      map (weakness_line fmt) (py_sorted_reverse snd (weakness_percentages weakness_data)) @
      [''## Strategic Recommendations'',
       ''Based on the analysis, trainers should consider type coverage and defensive strategies when building teams.'']) \<and>
   generate_report fmt (Some weakness_data) =
     py_join [CHR 0x0A, CHR 0x0A] (report_sections fmt (Some weakness_data)) \<and>
   set (py_sorted_reverse snd (weakness_percentages weakness_data)) =
     set (weakness_percentages weakness_data) \<and>
   length (py_sorted_reverse snd (weakness_percentages weakness_data)) =
     length (weakness_percentages weakness_data) \<and>
   sorted (rev (map snd (py_sorted_reverse snd (weakness_percentages weakness_data)))) \<and>
   (\<forall>p. filter (\<lambda>item. snd item = p)
          (py_sorted_reverse snd (weakness_percentages weakness_data)) =
        filter (\<lambda>item. snd item = p) (weakness_percentages weakness_data)) \<and>
   (distinct (map snd (weakness_percentages weakness_data)) \<longrightarrow>
      sorted_wrt (\<lambda>a b. snd b < snd a)
        (py_sorted_reverse snd (weakness_percentages weakness_data)))"
  by (simp add: py_sorted_reverse_descending py_sorted_reverse_stable py_sorted_reverse_strict
      py_sorted_reverse_set py_sorted_reverse_length generate_report_def report_sections_def)

theorem report_weaknesses_descending_witness:
  "distinct (map snd (weakness_percentages fire_analysis)) \<and>
   py_sorted_reverse snd (weakness_percentages fire_analysis) =
     [(''water'', 100), (''ground'', 50)] \<and>
   sorted_wrt (\<lambda>a b. snd b < snd a)
     (py_sorted_reverse snd (weakness_percentages fire_analysis))"
proof -
  have d: "distinct (map snd (weakness_percentages fire_analysis))"
    by (simp add: fire_analysis_def)
  have e: "py_sorted_reverse snd (weakness_percentages fire_analysis) =
     [(''water'', 100), (''ground'', 50)]"
    by (simp add: fire_analysis_def py_sorted_reverse_def)
  show ?thesis
    using d e report_weaknesses_descending [of plain_formatting fire_analysis] by blast
qed

section \<open>Dependence on the iteration order of sets\<close>

lemma enumerates_sorted: "enumerates sorted_list_of_set"
  by (simp add: enumerates_def)

lemma enumerates_reversed: "enumerates reversed_order"
  by (simp add: enumerates_def reversed_order_def)

lemma percentages_set:
  "set (map (\<lambda>(w, c). (w, float_percentage c n)) (count_weaknesses [] ws)) =
     (\<lambda>w. (w, float_percentage (count_list ws w) n)) ` set ws"
proof -
  have "set (count_weaknesses [] ws) = (\<lambda>w. (w, count_list ws w)) ` set ws"
    by (auto simp: count_weaknesses_entry)
  then show ?thesis by (auto simp: image_iff)
qed

lemma related_counts:
  "list_all2 same_weakness_sets rs1 rs2 \<Longrightarrow>
   count_list (concat (map weaknesses rs1)) w = count_list (concat (map weaknesses rs2)) w \<and>
   set (concat (map weaknesses rs1)) = set (concat (map weaknesses rs2))"
  by (induction rule: list_all2_induct)
     (auto simp: same_weakness_sets_def count_list_distinct)

lemma related_samples:
  assumes "\<And>nm. rel_option same_weakness_sets (gn1 nm) (gn2 nm)"
  shows "list_all2 same_weakness_sets (List.map_filter gn1 names) (List.map_filter gn2 names)"
proof (induction names)
  case Nil
  show ?case by (simp add: List.map_filter_simps)
next
  case (Cons nm names)
  show ?case
    using assms [of nm] Cons.IH
    by (cases "gn1 nm"; cases "gn2 nm") (simp_all add: List.map_filter_simps)
qed

lemma related_sources:
  assumes "enumerates it1" and "enumerates it2"
  shows "rel_option same_weakness_sets
           (get_pokemon_by_name http_get it1 chart nm)
           (get_pokemon_by_name http_get it2 chart nm)"
  using parse_sets [OF assms(1)] parse_sets [OF assms(2)]
  by (cases "http_get nm") (simp_all add: get_pokemon_by_name_def same_weakness_sets_def)

lemma max_loop_bound:
  "max_loop key best xs \<in> set (best # xs) \<and>
   (\<forall>z \<in> set (best # xs). key z \<le> key (max_loop key best xs))"
proof -
  obtain ys zs where eq: "best # xs = ys @ max_loop key best xs # zs"
    and lt: "\<forall>y \<in> set ys. key y < key (max_loop key best xs)"
    and le: "\<forall>z \<in> set zs. key z \<le> key (max_loop key best xs)"
    using max_loop_first [of best xs key] by blast
  have "set (best # xs) = set ys \<union> {max_loop key best xs} \<union> set zs"
    unfolding eq by simp
  then show ?thesis using lt le by fastforce
qed

lemma related_analyses:
  assumes rel: "\<And>nm. rel_option same_weakness_sets (gn1 nm) (gn2 nm)"
  shows "\<exists>r1 r2.
     analyze_type_weaknesses get_by_type gn1 ty = Inr r1 \<and>
     analyze_type_weaknesses get_by_type gn2 ty = Inr r2 \<and>
     an_type r1 = an_type r2 \<and>
     analyzed_pokemon_count r1 = analyzed_pokemon_count r2 \<and>
     map_of (weakness_percentages r1) = map_of (weakness_percentages r2) \<and>
     map_option snd (most_common_weakness r1) = map_option snd (most_common_weakness r2)"
proof -
  define rs1 where "rs1 = sample_records get_by_type gn1 ty"
  define rs2 where "rs2 = sample_records get_by_type gn2 ty"
  define ws1 where "ws1 = concat (map weaknesses rs1)"
  define ws2 where "ws2 = concat (map weaknesses rs2)"
  have r: "list_all2 same_weakness_sets rs1 rs2"
    unfolding rs1_def rs2_def sample_records_def by (rule related_samples) (rule rel)
  then have len: "length rs1 = length rs2" by (rule list_all2_lengthD)
  have cnt: "count_list ws1 w = count_list ws2 w" for w
    unfolding ws1_def ws2_def using related_counts [OF r] by simp
  have sets: "set ws1 = set ws2"
    unfolding ws1_def ws2_def using related_counts [OF r] by simp
  obtain r1 where a1: "analyze_type_weaknesses get_by_type gn1 ty = Inr r1"
    and t1: "an_type r1 = ty" and c1: "analyzed_pokemon_count r1 = length rs1"
    and wp1: "weakness_percentages r1 =
       map (\<lambda>(w, c). (w, float_percentage c (length rs1))) (count_weaknesses [] ws1)"
    and m1: "most_common_weakness r1 =
       (case weakness_percentages r1 of [] \<Rightarrow> None | x # xs \<Rightarrow> Some (max_loop snd x xs))"
    using analyze_result [of get_by_type gn1 ty] unfolding rs1_def ws1_def by blast
  obtain r2 where a2: "analyze_type_weaknesses get_by_type gn2 ty = Inr r2"
    and t2: "an_type r2 = ty" and c2: "analyzed_pokemon_count r2 = length rs2"
    and wp2: "weakness_percentages r2 =
       map (\<lambda>(w, c). (w, float_percentage c (length rs2))) (count_weaknesses [] ws2)"
    and m2: "most_common_weakness r2 =
       (case weakness_percentages r2 of [] \<Rightarrow> None | x # xs \<Rightarrow> Some (max_loop snd x xs))"
    using analyze_result [of get_by_type gn2 ty] unfolding rs2_def ws2_def by blast
  have same: "set (weakness_percentages r1) = set (weakness_percentages r2)"
    unfolding wp1 wp2 percentages_set len sets by (simp add: cnt)
  have d1: "distinct (map fst (weakness_percentages r1))"
    unfolding wp1 percentages_keys by (rule count_weaknesses_distinct) simp
  have d2: "distinct (map fst (weakness_percentages r2))"
    unfolding wp2 percentages_keys by (rule count_weaknesses_distinct) simp
  have maps: "map_of (weakness_percentages r1) = map_of (weakness_percentages r2)"
    using map_of_inject_set [OF d1 d2] same by simp
  have top: "map_option snd (most_common_weakness r1) = map_option snd (most_common_weakness r2)"
  proof (cases "weakness_percentages r1")
    case Nil
    then have "weakness_percentages r2 = []" using same by simp
    then show ?thesis using Nil m1 m2 by simp
  next
    case (Cons x xs)
    then obtain y ys where c2: "weakness_percentages r2 = y # ys"
      using same by (cases "weakness_percentages r2") auto
    have in1: "max_loop snd x xs \<in> set (x # xs)" and
      up1: "\<forall>z \<in> set (x # xs). snd z \<le> snd (max_loop snd x xs)"
      using max_loop_bound [of snd x xs] by blast+
    have in2: "max_loop snd y ys \<in> set (y # ys)" and
      up2: "\<forall>z \<in> set (y # ys). snd z \<le> snd (max_loop snd y ys)"
      using max_loop_bound [of snd y ys] by blast+
    have eq: "set (x # xs) = set (y # ys)" using same Cons c2 by simp
    have "snd (max_loop snd x xs) \<le> snd (max_loop snd y ys)"
      using in1 up2 eq by blast
    moreover have "snd (max_loop snd y ys) \<le> snd (max_loop snd x xs)"
      using in2 up1 eq by blast
    ultimately show ?thesis using m1 m2 Cons c2 by simp
  qed
  show ?thesis using a1 a2 t1 t2 c1 c2 len maps top by auto
qed


text \<open>
  Claim C9, amended. For any two iteration orders of sets, the records built from the same
  answer have the same weaknesses and the same resistances as sets and agree on every
  other field; and the analyses over the same data source return the same type, the same
  count, the same percentage for every weakness and the same greatest percentage.
\<close>

theorem deterministic_up_to_set_order:
  assumes "enumerates it1" and "enumerates it2"
  shows "set (weaknesses (parse_pokemon_data it1 chart data)) =
           set (weaknesses (parse_pokemon_data it2 chart data)) \<and>
         set (resistances (parse_pokemon_data it1 chart data)) =
           set (resistances (parse_pokemon_data it2 chart data)) \<and>
         (parse_pokemon_data it1 chart data)\<lparr>weaknesses := [], resistances := []\<rparr> =
           (parse_pokemon_data it2 chart data)\<lparr>weaknesses := [], resistances := []\<rparr> \<and>
         (\<exists>r1 r2.
            analyze_type_weaknesses get_by_type (get_pokemon_by_name http_get it1 chart) ty =
              Inr r1 \<and>
            analyze_type_weaknesses get_by_type (get_pokemon_by_name http_get it2 chart) ty =
              Inr r2 \<and>
            an_type r1 = an_type r2 \<and>
            analyzed_pokemon_count r1 = analyzed_pokemon_count r2 \<and>
            map_of (weakness_percentages r1) = map_of (weakness_percentages r2) \<and>
            map_option snd (most_common_weakness r1) =
              map_option snd (most_common_weakness r2))"
proof -
  have "(parse_pokemon_data it1 chart data)\<lparr>weaknesses := [], resistances := []\<rparr> =
           (parse_pokemon_data it2 chart data)\<lparr>weaknesses := [], resistances := []\<rparr>"
    by (simp add: parse_pokemon_data_def Let_def split: prod.splits)
  moreover have "\<exists>r1 r2.
            analyze_type_weaknesses get_by_type (get_pokemon_by_name http_get it1 chart) ty =
              Inr r1 \<and>
            analyze_type_weaknesses get_by_type (get_pokemon_by_name http_get it2 chart) ty =
              Inr r2 \<and>
            an_type r1 = an_type r2 \<and>
            analyzed_pokemon_count r1 = analyzed_pokemon_count r2 \<and>
            map_of (weakness_percentages r1) = map_of (weakness_percentages r2) \<and>
            map_option snd (most_common_weakness r1) =
              map_option snd (most_common_weakness r2)"
    by (rule related_analyses) (rule related_sources [OF assms])
  ultimately show ?thesis
    using parse_sets [OF assms(1)] parse_sets [OF assms(2)] by simp
qed

theorem deterministic_up_to_set_order_witness:
  "enumerates sorted_list_of_set \<and> enumerates reversed_order \<and>
   set (weaknesses (parse_pokemon_data sorted_list_of_set get_simplified_type_chart charmander_data)) =
     set (weaknesses (parse_pokemon_data reversed_order get_simplified_type_chart charmander_data)) \<and>
   (\<exists>r1 r2.
      analyze_type_weaknesses fire_names
        (get_pokemon_by_name charmander_http sorted_list_of_set get_simplified_type_chart)
        ''fire'' = Inr r1 \<and>
      analyze_type_weaknesses fire_names
        (get_pokemon_by_name charmander_http reversed_order get_simplified_type_chart)
        ''fire'' = Inr r2 \<and>
      analyzed_pokemon_count r1 = analyzed_pokemon_count r2 \<and>
      map_of (weakness_percentages r1) = map_of (weakness_percentages r2) \<and>
      map_option snd (most_common_weakness r1) = map_option snd (most_common_weakness r2))"
proof -
  have a: "enumerates sorted_list_of_set" by (rule enumerates_sorted)
  have b: "enumerates reversed_order" by (rule enumerates_reversed)
  show ?thesis
    using a b deterministic_up_to_set_order [OF a b, of get_simplified_type_chart
        charmander_data fire_names charmander_http "''fire''"]
    by blast
qed

lemma charmander_ascending:
  "get_pokemon_by_name charmander_http sorted_list_of_set get_simplified_type_chart ''charmander'' =
     Some \<lparr>name = ''charmander'', types = [''fire''], hp = 39, attack = 52, defense = 43,
           special_attack = 60, special_defense = 50, speed = 65,
           weaknesses = [''ground'', ''rock'', ''water''],
           resistances = [''bug'', ''fairy'', ''fire'', ''grass'', ''ice'', ''steel'']\<rparr>"
  by code_simp

lemma charmander_descending:
  "get_pokemon_by_name charmander_http reversed_order get_simplified_type_chart ''charmander'' =
     Some \<lparr>name = ''charmander'', types = [''fire''], hp = 39, attack = 52, defense = 43,
           special_attack = 60, special_defense = 50, speed = 65,
           weaknesses = [''water'', ''rock'', ''ground''],
           resistances = [''steel'', ''ice'', ''grass'', ''fire'', ''fairy'', ''bug'']\<rparr>"
  by code_simp

text \<open>
  Claim C9 as stated fails: the order of the weakness list, the order of the percentages
  and, among weaknesses of equal percentage, the most common weakness follow the iteration
  order of sets, which the inputs do not fix. For the fire type alone, ascending and
  descending iteration give different lists and different most common weaknesses.
\<close>

theorem set_order_counterexample:
  "enumerates sorted_list_of_set \<and> enumerates reversed_order \<and>
   map_option weaknesses
     (get_pokemon_by_name charmander_http sorted_list_of_set get_simplified_type_chart
        ''charmander'') = Some [''ground'', ''rock'', ''water''] \<and>
   map_option weaknesses
     (get_pokemon_by_name charmander_http reversed_order get_simplified_type_chart
        ''charmander'') = Some [''water'', ''rock'', ''ground''] \<and>
   analyze_type_weaknesses fire_names
     (get_pokemon_by_name charmander_http sorted_list_of_set get_simplified_type_chart)
     ''fire'' =
     Inr \<lparr>an_type = ''fire'', analyzed_pokemon_count = 1,
          weakness_percentages = [(''ground'', 100), (''rock'', 100), (''water'', 100)],
          most_common_weakness = Some (''ground'', 100)\<rparr> \<and>
   analyze_type_weaknesses fire_names
     (get_pokemon_by_name charmander_http reversed_order get_simplified_type_chart)
     ''fire'' =
     Inr \<lparr>an_type = ''fire'', analyzed_pokemon_count = 1,
          weakness_percentages = [(''water'', 100), (''rock'', 100), (''ground'', 100)],
          most_common_weakness = Some (''water'', 100)\<rparr>"
  by (simp add: enumerates_sorted enumerates_reversed analyze_type_weaknesses_def
      fire_names_def charmander_ascending charmander_descending dict_get_def py_max_def
      float_percentage_values)

end
